theory Spec2Isabelle
  imports Main "HOL-Library.Word"
begin

section \<open>The Infobip channel handler (handlers/infobip/infobip.go)\<close>

text \<open>
  The handler has three entry points: \<open>StatusMessage\<close> and \<open>ReceiveMessage\<close> (HTTP
  handlers for the gateway's callbacks) and \<open>SendMsg\<close> (the outbound send). Each is
  embedded as a function from the collaborators' behaviour (a \<open>handler\<close> record), the
  state of the outside world before the call (a \<open>World\<close> record) and the call's
  arguments, to the call's outcome and the world after it.
\<close>

subsection \<open>Values of package courier\<close>

text \<open>
  A Go \<open>error\<close> built by \<open>fmt.Errorf\<close> or \<open>errors.Errorf\<close> keeps its format string and
  arguments; \<open>Validation f\<close> is a validation error of the decoder about field \<open>f\<close>; an
  error produced by another collaborator is opaque.
\<close>

datatype fmt_arg = S string | D int

datatype error = Errorf string "fmt_arg list" | Validation string | External string

type_synonym Time = int

type_synonym URN = string

datatype MsgStatusValue = MsgSent | MsgDelivered | MsgFailed | MsgErrored | MsgWired

datatype MsgID = NewMsgID "64 word" | NilMsgID

text \<open>
  \<open>courier.Channel\<close> is an interface; the handler reads its UUID, address, country
  and configuration.
\<close>

record Channel =
  UUID :: string
  Address :: string
  Country :: string
  Config :: "(string \<times> string) list"

text \<open>
  The configuration keys \<open>courier.ConfigUsername\<close> and \<open>courier.ConfigPassword\<close> are
  constants of package courier; the properties below hold whatever their values are.
\<close>

definition ConfigUsername :: string where
  "ConfigUsername = ''username''"

definition ConfigPassword :: string where
  "ConfigPassword = ''password''"

text \<open>
  Modelled from the spec: \<open>Channel.StringConfigForKey\<close> is a method of package courier
  that is not part of this file. The channel "must carry non-empty username and password
  configuration; absence of either fails": the lookup returns the configured string, and
  the default passed by the caller when the key is absent.
\<close>

definition StringConfigForKey :: "Channel \<Rightarrow> string \<Rightarrow> string \<Rightarrow> string" where
  "StringConfigForKey c k d = (case map_of (Config c) k of None \<Rightarrow> d | Some v \<Rightarrow> v)"

record Msg =
  msg_Channel :: Channel
  msg_ID :: MsgID
  msg_URN :: URN
  msg_Text :: string
  msg_ReceivedOn :: "Time option"
  msg_ExternalID :: string

text \<open>
  \<open>utils.RequestResponse\<close>, and the \<open>http.Request\<close> that \<open>SendMsg\<close> builds.
\<close>

record RequestResponse =
  StatusCode :: int
  Body :: string

record Request =
  req_Method :: string
  req_URL :: string
  req_Headers :: "(string \<times> string) list"
  req_BasicAuth :: "(string \<times> string) option"
  req_Body :: string

text \<open>
  A \<open>*courier.ChannelLog\<close> is a pointer: \<open>SendMsg\<close> adds the log to the status and
  writes the error into the log afterwards. The logs live in a store (a list, an address
  is an index), and a status holds addresses.
\<close>

record ChannelLog =
  log_Description :: string
  log_Channel :: Channel
  log_MsgID :: MsgID
  log_RR :: RequestResponse
  log_Error :: "error option"

record MsgStatus =
  st_Channel :: Channel
  st_ID :: MsgID
  st_Status :: MsgStatusValue
  st_Logs :: "nat list"

datatype Event = MsgEvent Msg | StatusEvent MsgStatus

subsection \<open>The gateway's JSON shapes\<close>

record ibStatusGroup =
  GroupName :: string

record ibStatus =
  MessageID :: "64 word"
  Status :: ibStatusGroup

record ibStatusEnvelope =
  Results :: "ibStatus list"

record infobipMessage =
  im_MessageID :: string
  im_From :: string
  im_Text :: string
  im_ReceivedAt :: string

record infobipEnvelope =
  PendingMessageCount :: int
  MessageCount :: int
  ie_Results :: "infobipMessage list"

record ibDestination =
  To :: string
  dest_MessageID :: string

record ibOutgoingMessage =
  From :: string
  Destinations :: "ibDestination list"
  Text :: string
  NotifyContentType :: string
  IntermediateReport :: bool
  NotifyURL :: string

record ibOutgoingEnvelope =
  Messages :: "ibOutgoingMessage list"

subsection \<open>The world and the collaborators\<close>

text \<open>
  What a call can change outside itself: the messages and statuses the backend has
  persisted (oldest first), the HTTP requests issued to the gateway, the number of times
  the clock has been read, and the store of channel logs.
\<close>

record World =
  written_msgs :: "Msg list"
  written_statuses :: "MsgStatus list"
  http_requests :: "Request list"
  clock_reads :: nat
  channel_logs :: "ChannelLog list"

text \<open>
  The behaviour of everything the handler calls and this file does not define: the
  server's configuration, the JSON decoder of package handlers (one field per target
  type), the backend's writes (an error, or \<open>None\<close> and the value is persisted), the clock
  (\<open>Now h k\<close> is the reading of the \<open>k\<close>-th call of \<open>time.Now\<close>), \<open>time.Parse\<close>, the URN
  library, the JSON encoder, the HTTP client and \<open>jsonparser.GetInt\<close> (value and error, as
  Go returns them).
\<close>

record handler =
  Domain :: string
  DecodeStatus :: "string \<Rightarrow> error + ibStatusEnvelope"
  DecodeInbound :: "string \<Rightarrow> error + infobipEnvelope"
  WriteMsgStatus :: "World \<Rightarrow> MsgStatus \<Rightarrow> error option"
  WriteMsg :: "World \<Rightarrow> Msg \<Rightarrow> error option"
  Now :: "nat \<Rightarrow> Time"
  time_Parse :: "string \<Rightarrow> string \<Rightarrow> error + Time"
  NewTelURNForCountry :: "string \<Rightarrow> string \<Rightarrow> URN"
  CallbackDomain :: "Channel \<Rightarrow> string \<Rightarrow> string"
  URN_Path :: "URN \<Rightarrow> string"
  MsgID_String :: "MsgID \<Rightarrow> string"
  GetTextAndAttachments :: "Msg \<Rightarrow> string"
  json_Encode :: "ibOutgoingEnvelope \<Rightarrow> error + string"
  MakeHTTPRequest :: "Request \<Rightarrow> RequestResponse \<times> error option"
  jsonparser_GetInt :: "string \<Rightarrow> string list \<Rightarrow> 64 word \<times> error option"

text \<open>
  The outcome of an HTTP handler. Go returns \<open>([]Event, error)\<close>, where the error is what
  the response writer returned: \<open>WriteError\<close> answers with an error response,
  \<open>WriteIgnored\<close> with the "ignored" acknowledgment, \<open>WriteMsgSuccess\<close> and
  \<open>WriteStatusSuccess\<close> with a success acknowledgment (the first argument is the event
  list returned beside it). \<open>ReturnErr\<close> is \<open>return nil, err\<close> with no response written,
  and \<open>Panic\<close> an index out of range.
\<close>

datatype result =
    WriteError error
  | WriteIgnored string
  | ReturnErr error
  | WriteMsgSuccess "Event list" "Msg list"
  | WriteStatusSuccess "Event list" "MsgStatus list"
  | Panic

subsection \<open>StatusMessage\<close>

definition infobipStatusMapping :: "string \<Rightarrow> MsgStatusValue option" where
  "infobipStatusMapping = map_of
     [(''PENDING'', MsgSent),
      (''EXPIRED'', MsgSent),
      (''DELIVERED'', MsgDelivered),
      (''REJECTED'', MsgFailed),
      (''UNDELIVERABLE'', MsgFailed)]"

text \<open>
  Modelled from the spec: \<open>Backend.NewMsgStatusForID\<close> is a method of the backend, which
  is not part of this file. An Internal Delivery Status is "channel reference, internal
  message identifier, status value"; a new one has no log.
\<close>

definition NewMsgStatusForID :: "Channel \<Rightarrow> MsgID \<Rightarrow> MsgStatusValue \<Rightarrow> MsgStatus" where
  "NewMsgStatusForID channel msgID status =
     \<lparr>st_Channel = channel, st_ID = msgID, st_Status = status, st_Logs = []\<rparr>"

definition StatusMessage :: "handler \<Rightarrow> World \<Rightarrow> Channel \<Rightarrow> string \<Rightarrow> result \<times> World" where
  "StatusMessage h wld channel r =
     (case DecodeStatus h r of
        Inl err \<Rightarrow> (WriteError err, wld)
      | Inr env \<Rightarrow>
          (case Results env of
             [] \<Rightarrow> (Panic, wld)
           | r0 # _ \<Rightarrow>
               (case infobipStatusMapping (GroupName (Status r0)) of
                  None \<Rightarrow>
                    (WriteError (Errorf
                       ''unknown status '%s', must be one of PENDING, DELIVERED, EXPIRED, REJECTED or UNDELIVERABLE''
                       [S (GroupName (Status r0))]), wld)
                | Some msgStatus \<Rightarrow>
                    (let status = NewMsgStatusForID channel (NewMsgID (MessageID r0)) msgStatus
                     in case WriteMsgStatus h wld status of
                          Some err \<Rightarrow> (ReturnErr err, wld)
                        | None \<Rightarrow>
                            (WriteStatusSuccess [StatusEvent status] [status],
                             wld\<lparr>written_statuses := written_statuses wld @ [status]\<rparr>)))))"

subsection \<open>ReceiveMessage\<close>

definition time_layout :: string where
  "time_layout = ''2006-01-02T15:04:05.999999999-0700''"

text \<open>
  Modelled from the spec: \<open>Backend.NewIncomingMsg\<close> and the setters \<open>WithReceivedOn\<close> and
  \<open>WithExternalID\<close> of \<open>courier.Msg\<close> are not part of this file. An Internal Message is
  "channel reference, sender identifier, body text, received timestamp, optional
  external/provider message identifier"; a new incoming message has no internal
  identifier yet.
\<close>

definition NewIncomingMsg :: "Channel \<Rightarrow> URN \<Rightarrow> string \<Rightarrow> Msg" where
  "NewIncomingMsg channel urn text =
     \<lparr>msg_Channel = channel, msg_ID = NilMsgID, msg_URN = urn, msg_Text = text,
      msg_ReceivedOn = None, msg_ExternalID = ''''\<rparr>"

definition WithReceivedOn :: "Msg \<Rightarrow> Time \<Rightarrow> Msg" where
  "WithReceivedOn m date = m\<lparr>msg_ReceivedOn := Some date\<rparr>"

definition WithExternalID :: "Msg \<Rightarrow> string \<Rightarrow> Msg" where
  "WithExternalID m messageID = m\<lparr>msg_ExternalID := messageID\<rparr>"

text \<open>
  The loop over \<open>ie.Results\<close>, with the accumulated \<open>msgs\<close>. A record with empty text is
  skipped before the clock is read. \<open>Inl\<close> is an early return out of the handler.
\<close>

fun receive_loop ::
  "handler \<Rightarrow> Channel \<Rightarrow> infobipMessage list \<Rightarrow> Msg list \<Rightarrow> World \<Rightarrow> (result + Msg list) \<times> World"
where
  "receive_loop h channel [] msgs wld = (Inr msgs, wld)"
| "receive_loop h channel (infobipMessage # rest) msgs wld =
     (let messageID = im_MessageID infobipMessage;
          text = im_Text infobipMessage;
          dateString = im_ReceivedAt infobipMessage
      in if text = '''' then receive_loop h channel rest msgs wld
         else
           (let now = Now h (clock_reads wld);
                wld1 = wld\<lparr>clock_reads := Suc (clock_reads wld)\<rparr>
            in case (if dateString \<noteq> '''' then time_Parse h time_layout dateString else Inr now) of
                 Inl err \<Rightarrow> (Inl (WriteError err), wld1)
               | Inr date \<Rightarrow>
                   (let urn = NewTelURNForCountry h (im_From infobipMessage) (Country channel);
                        msg = WithExternalID (WithReceivedOn (NewIncomingMsg channel urn text) date) messageID
                    in case WriteMsg h wld1 msg of
                         Some err \<Rightarrow> (Inl (ReturnErr err), wld1)
                       | None \<Rightarrow>
                           receive_loop h channel rest (msgs @ [msg])
                             (wld1\<lparr>written_msgs := written_msgs wld1 @ [msg]\<rparr>))))"

definition ReceiveMessage :: "handler \<Rightarrow> World \<Rightarrow> Channel \<Rightarrow> string \<Rightarrow> result \<times> World" where
  "ReceiveMessage h wld channel r =
     (case DecodeInbound h r of
        Inl err \<Rightarrow> (WriteError err, wld)
      | Inr ie \<Rightarrow>
          if MessageCount ie = 0 then (WriteIgnored ''ignoring request, no message'', wld)
          else
            (case receive_loop h channel (ie_Results ie) [] wld of
               (Inl early, wld') \<Rightarrow> (early, wld')
             | (Inr msgs, wld') \<Rightarrow>
                 if length msgs = 0 then (WriteIgnored ''ignoring request, no message'', wld')
                 else (WriteMsgSuccess [MsgEvent (msgs ! 0)] msgs, wld')))"

subsection \<open>SendMsg\<close>

definition sendURL :: string where
  "sendURL = ''https://api.infobip.com/sms/1/text/advanced''"

text \<open>
  \<open>strings.TrimLeft s cutset\<close> removes every leading character that is in the cutset.
  The cutset here is \<open>"+"\<close>, a single ASCII byte, so bytes and code points agree.
\<close>

definition TrimLeft :: "string \<Rightarrow> string \<Rightarrow> string" where
  "TrimLeft s cutset = dropWhile (\<lambda>c. c \<in> set cutset) s"

definition statusURL :: "handler \<Rightarrow> Msg \<Rightarrow> string" where
  "statusURL h msg =
     (let callbackDomain = CallbackDomain h (msg_Channel msg) (Domain h)
      in ''https://'' @ callbackDomain @ ''/c/ib/'' @ UUID (msg_Channel msg) @ ''/delivered'')"

definition ibMsg :: "handler \<Rightarrow> Msg \<Rightarrow> ibOutgoingEnvelope" where
  "ibMsg h msg =
     \<lparr>Messages =
        [\<lparr>From = Address (msg_Channel msg),
          Destinations =
            [\<lparr>To = TrimLeft (URN_Path h (msg_URN msg)) ''+'',
              dest_MessageID = MsgID_String h (msg_ID msg)\<rparr>],
          Text = GetTextAndAttachments h msg,
          NotifyContentType = ''application/json'',
          IntermediateReport = True,
          NotifyURL = statusURL h msg\<rparr>]\<rparr>"

text \<open>
  Modelled from the spec: \<open>courier.NewChannelLogFromRR\<close>, \<open>ChannelLog.WithError\<close>,
  \<open>MsgStatus.AddLog\<close> and \<open>MsgStatus.SetStatus\<close> are not part of this file. The spec has
  \<open>SendMsg\<close> "attach a log record of the attempt", "attach the error to the log" and
  "upgrade the status": a new log describes the attempt and carries no error, \<open>AddLog\<close>
  appends the log's address to the status, \<open>SetStatus\<close> replaces the status value, and
  \<open>WithError\<close> sets the log's description and error.
\<close>

definition NewChannelLogFromRR ::
  "string \<Rightarrow> Channel \<Rightarrow> MsgID \<Rightarrow> RequestResponse \<Rightarrow> ChannelLog" where
  "NewChannelLogFromRR description channel msgID rr =
     \<lparr>log_Description = description, log_Channel = channel, log_MsgID = msgID, log_RR = rr,
      log_Error = None\<rparr>"

definition AddLog :: "MsgStatus \<Rightarrow> nat \<Rightarrow> MsgStatus" where
  "AddLog status log = status\<lparr>st_Logs := st_Logs status @ [log]\<rparr>"

definition SetStatus :: "MsgStatus \<Rightarrow> MsgStatusValue \<Rightarrow> MsgStatus" where
  "SetStatus status v = status\<lparr>st_Status := v\<rparr>"

text \<open>\<open>log.WithError\<close> writes through the pointer: the log at that address changes.\<close>

definition WithError :: "World \<Rightarrow> nat \<Rightarrow> string \<Rightarrow> error \<Rightarrow> World" where
  "WithError wld log description err =
     wld\<lparr>channel_logs := (channel_logs wld)
            [log := (channel_logs wld ! log)\<lparr>log_Description := description, log_Error := Some err\<rparr>]\<rparr>"

text \<open>
  The request that \<open>SendMsg\<close> builds: a POST to \<open>sendURL\<close> with the encoded envelope as
  body, the two JSON headers and basic authentication.
\<close>

definition ibRequest :: "string \<Rightarrow> string \<Rightarrow> string \<Rightarrow> Request" where
  "ibRequest username password requestBody =
     \<lparr>req_Method = ''POST'', req_URL = sendURL,
      req_Headers = [(''Content-Type'', ''application/json''), (''Accept'', ''application/json'')],
      req_BasicAuth = Some (username, password),
      req_Body = requestBody\<rparr>"

text \<open>
  Go returns \<open>(MsgStatus, error)\<close>, always one of \<open>(nil, err)\<close> and \<open>(status, nil)\<close>: \<open>Inl err\<close>
  and \<open>Inr status\<close>. \<open>http.NewRequest\<close> cannot fail on the constant method and URL, and
  its error is overwritten by the next assignment.
\<close>

definition SendMsg :: "handler \<Rightarrow> World \<Rightarrow> Msg \<Rightarrow> (error + MsgStatus) \<times> World" where
  "SendMsg h wld msg =
     (let username = StringConfigForKey (msg_Channel msg) ConfigUsername ''''
      in if username = '''' then (Inl (Errorf ''no username set for IB channel'' []), wld)
         else
     (let password = StringConfigForKey (msg_Channel msg) ConfigPassword ''''
      in if password = '''' then (Inl (Errorf ''no password set for IB channel'' []), wld)
         else
     (case json_Encode h (ibMsg h msg) of
        Inl err \<Rightarrow> (Inl err, wld)
      | Inr requestBody \<Rightarrow>
     (let req = ibRequest username password requestBody;
          (rr, err) = MakeHTTPRequest h req;
          wld1 = wld\<lparr>http_requests := http_requests wld @ [req]\<rparr>;
          status = NewMsgStatusForID (msg_Channel msg) (msg_ID msg) MsgErrored;
          log = length (channel_logs wld1);
          wld2 = wld1\<lparr>channel_logs := channel_logs wld1 @
                   [NewChannelLogFromRR ''Message Sent'' (msg_Channel msg) (msg_ID msg) rr]\<rparr>;
          status = AddLog status log
      in case err of
           Some e \<Rightarrow> (Inr status, WithError wld2 log ''Message Send Error'' e)
         | None \<Rightarrow>
             (let (groupID, perr) =
                    jsonparser_GetInt h (Body rr) [''messages'', ''[0]'', ''status'', ''groupId'']
              in if perr \<noteq> None \<or> (groupID \<noteq> 1 \<and> groupID \<noteq> 3)
                 then (Inr status,
                       WithError wld2 log ''Message Send Error''
                         (Errorf (''received error status: '%d'' @ [CHR 0x27]) [D (sint groupID)]))
                 else (Inr (SetStatus status MsgWired), wld2))))))"

subsection \<open>The decoder of status batches\<close>

text \<open>
  Modelled from the spec: \<open>handlers.DecodeAndValidateJSON\<close> and the validator behind the
  \<open>validate:"required"\<close> tags are not part of this file. For a status batch the spec
  says: "missing/empty array is a validation error at decode time", each record has "a
  numeric message identifier [required], a nested status object with a group-name string
  [required]", and malformed JSON fails with a parse error. A missing field decodes to
  Go's zero value, so the checks are on the decoded struct. \<open>unmarshal\<close> is
  \<open>json.Unmarshal\<close> into the envelope.
\<close>

definition validate_ibStatusEnvelope :: "ibStatusEnvelope \<Rightarrow> error option" where
  "validate_ibStatusEnvelope env =
     (if Results env = [] then Some (Validation ''results'')
      else if list_ex (\<lambda>s. MessageID s = 0) (Results env) then Some (Validation ''messageId'')
      else if list_ex (\<lambda>s. GroupName (Status s) = '''') (Results env)
           then Some (Validation ''groupName'')
      else None)"

definition DecodeAndValidateJSON_status ::
  "(string \<Rightarrow> error + ibStatusEnvelope) \<Rightarrow> string \<Rightarrow> error + ibStatusEnvelope" where
  "DecodeAndValidateJSON_status unmarshal r =
     (case unmarshal r of
        Inl err \<Rightarrow> Inl err
      | Inr env \<Rightarrow>
          (case validate_ibStatusEnvelope env of
             Some err \<Rightarrow> Inl err
           | None \<Rightarrow> Inr env))"

subsection \<open>What the loop of ReceiveMessage persists\<close>

text \<open>
  What the loop of \<open>ReceiveMessage\<close> does to a list of records when the backend's writes
  succeed, as functions of the records and of the number \<open>k\<close> of clock readings taken
  before: the received timestamp of a record, the message built from a record, the
  messages built up to the first record with non-empty text whose timestamp does not
  parse, and that record's parse error.
\<close>

definition incoming_date :: "handler \<Rightarrow> nat \<Rightarrow> infobipMessage \<Rightarrow> error + Time" where
  "incoming_date h k rec =
     (if im_ReceivedAt rec \<noteq> '''' then time_Parse h time_layout (im_ReceivedAt rec)
      else Inr (Now h k))"

definition incoming_msg :: "handler \<Rightarrow> Channel \<Rightarrow> infobipMessage \<Rightarrow> Time \<Rightarrow> Msg" where
  "incoming_msg h channel rec date =
     \<lparr>msg_Channel = channel, msg_ID = NilMsgID,
      msg_URN = NewTelURNForCountry h (im_From rec) (Country channel),
      msg_Text = im_Text rec, msg_ReceivedOn = Some date, msg_ExternalID = im_MessageID rec\<rparr>"

fun accepted_msgs :: "handler \<Rightarrow> Channel \<Rightarrow> infobipMessage list \<Rightarrow> nat \<Rightarrow> Msg list" where
  "accepted_msgs h channel [] k = []"
| "accepted_msgs h channel (rec # rest) k =
     (if im_Text rec = '''' then accepted_msgs h channel rest k
      else case incoming_date h k rec of
             Inl err \<Rightarrow> []
           | Inr date \<Rightarrow> incoming_msg h channel rec date # accepted_msgs h channel rest (Suc k))"

fun first_parse_error :: "handler \<Rightarrow> infobipMessage list \<Rightarrow> nat \<Rightarrow> error option" where
  "first_parse_error h [] k = None"
| "first_parse_error h (rec # rest) k =
     (if im_Text rec = '''' then first_parse_error h rest k
      else case incoming_date h k rec of
             Inl err \<Rightarrow> Some err
           | Inr date \<Rightarrow> first_parse_error h rest (Suc k))"

definition with_text :: "infobipMessage list \<Rightarrow> infobipMessage list" where
  "with_text rs = filter (\<lambda>rec. im_Text rec \<noteq> '''') rs"

text \<open>
  Every record with non-empty text has an absent timestamp or one that \<open>time.Parse\<close>
  accepts.
\<close>

definition timestamps_ok :: "handler \<Rightarrow> infobipMessage list \<Rightarrow> bool" where
  "timestamps_ok h rs =
     list_all (\<lambda>rec. im_Text rec = '''' \<or> im_ReceivedAt rec = '''' \<or>
                 (case time_Parse h time_layout (im_ReceivedAt rec) of
                    Inl err \<Rightarrow> False | Inr date \<Rightarrow> True)) rs"

subsection \<open>Sample values\<close>

definition demo_channel :: Channel where
  "demo_channel =
     \<lparr>UUID = ''8eb23e93-5ecb-45ba-b726-3b064e0c56ab'', Address = ''2020'', Country = ''US'',
      Config = [(''username'', ''user1''), (''password'', ''pass1'')]\<rparr>"

definition demo_world :: World where
  "demo_world =
     \<lparr>written_msgs = [], written_statuses = [], http_requests = [], clock_reads = 0,
      channel_logs = []\<rparr>"

definition demo_handler :: handler where
  "demo_handler =
     \<lparr>Domain = ''courier.test'',
      DecodeStatus = (\<lambda>r. Inl (External ''unable to parse request JSON'')),
      DecodeInbound = (\<lambda>r. Inl (External ''unable to parse request JSON'')),
      WriteMsgStatus = (\<lambda>w s. None),
      WriteMsg = (\<lambda>w m. None),
      Now = (\<lambda>k. 1000 + int k),
      time_Parse = (\<lambda>layout v.
         if v = ''2016-10-06T09:28:39.220+0000'' then Inr 1475746119220
         else Inl (External ''parsing time'')),
      NewTelURNForCountry = (\<lambda>number country. ''tel:+'' @ number),
      CallbackDomain = (\<lambda>c fallback. StringConfigForKey c ''callback_domain'' fallback),
      URN_Path = drop 4,
      MsgID_String = (\<lambda>i. ''10''),
      GetTextAndAttachments = msg_Text,
      json_Encode = (\<lambda>e. Inr ''{}''),
      MakeHTTPRequest = (\<lambda>req. (\<lparr>StatusCode = 200, Body = ''ok''\<rparr>, None)),
      jsonparser_GetInt = (\<lambda>body path.
         if body = ''ok'' then (1, None) else (0, Some (External ''Key path not found'')))\<rparr>"

definition demo_msg :: Msg where
  "demo_msg =
     \<lparr>msg_Channel = demo_channel, msg_ID = NewMsgID 10, msg_URN = ''tel:+15551234567'',
      msg_Text = ''Simple Message'', msg_ReceivedOn = None, msg_ExternalID = ''''\<rparr>"

definition demo_status :: "string \<Rightarrow> ibStatus" where
  "demo_status g = \<lparr>MessageID = 12345, Status = \<lparr>GroupName = g\<rparr>\<rparr>"

definition demo_inbound :: "string \<Rightarrow> string \<Rightarrow> infobipMessage" where
  "demo_inbound text receivedAt =
     \<lparr>im_MessageID = ''817790313235066447'', im_From = ''385916242493'', im_Text = text,
      im_ReceivedAt = receivedAt\<rparr>"

definition demo_status_handler :: "ibStatus list \<Rightarrow> handler" where
  "demo_status_handler rs = demo_handler\<lparr>DecodeStatus := (\<lambda>r. Inr \<lparr>Results = rs\<rparr>)\<rparr>"

definition demo_inbound_handler :: "infobipEnvelope \<Rightarrow> handler" where
  "demo_inbound_handler ie = demo_handler\<lparr>DecodeInbound := (\<lambda>r. Inr ie)\<rparr>"

definition demo_batch :: "int \<Rightarrow> infobipMessage list \<Rightarrow> infobipEnvelope" where
  "demo_batch n rs = \<lparr>PendingMessageCount = 0, MessageCount = n, ie_Results = rs\<rparr>"

definition demo_two_batches_handler :: handler where
  "demo_two_batches_handler =
     demo_handler\<lparr>DecodeStatus := (\<lambda>r.
       if r = ''two'' then Inr \<lparr>Results = [demo_status ''DELIVERED'', demo_status ''REJECTED'']\<rparr>
       else Inr \<lparr>Results = [demo_status ''DELIVERED'']\<rparr>)\<rparr>"

definition demo_validating_handler :: "(string \<Rightarrow> error + ibStatusEnvelope) \<Rightarrow> handler" where
  "demo_validating_handler unmarshal =
     demo_handler\<lparr>DecodeStatus := DecodeAndValidateJSON_status unmarshal\<rparr>"

definition demo_http_handler :: "RequestResponse \<times> error option \<Rightarrow> handler" where
  "demo_http_handler answer = demo_handler\<lparr>MakeHTTPRequest := (\<lambda>req. answer)\<rparr>"

definition demo_msg_no_password :: Msg where
  "demo_msg_no_password =
     demo_msg\<lparr>msg_Channel := demo_channel\<lparr>Config := [(''username'', ''user1'')]\<rparr>\<rparr>"

section \<open>Properties\<close>

subsection \<open>The status table\<close>

lemma infobipStatusMapping_Some:
  "infobipStatusMapping g = Some v \<longleftrightarrow>
     (g = ''PENDING'' \<and> v = MsgSent) \<or> (g = ''EXPIRED'' \<and> v = MsgSent) \<or>
     (g = ''DELIVERED'' \<and> v = MsgDelivered) \<or> (g = ''REJECTED'' \<and> v = MsgFailed) \<or>
     (g = ''UNDELIVERABLE'' \<and> v = MsgFailed)"
  unfolding infobipStatusMapping_def by (simp del: One_nat_def) blast

lemma infobipStatusMapping_None:
  "infobipStatusMapping g = None \<longleftrightarrow>
     g \<notin> {''PENDING'', ''EXPIRED'', ''DELIVERED'', ''REJECTED'', ''UNDELIVERABLE''}"
  unfolding infobipStatusMapping_def by simp

text \<open>
  C1. When the decoded status batch has a first record with group name \<open>g\<close>: the table is
  PENDING to Sent, EXPIRED to Sent, DELIVERED to Delivered, REJECTED to Failed,
  UNDELIVERABLE to Failed. For \<open>g\<close> outside these five the table has no entry and
  \<open>StatusMessage\<close> answers with the "unknown status" error, the world unchanged (nothing
  is constructed or written). For \<open>g\<close> among the five, the status built carries the
  table's value and the record's message id, and is written; the outcome is the success
  acknowledgment with that status persisted, or the backend's error when its write fails.
\<close>

theorem C1_status_mapping:
  assumes dec: "DecodeStatus h r = Inr env" and res: "Results env = r0 # rest"
    and g: "GroupName (Status r0) = g"
  shows
    "infobipStatusMapping ''PENDING'' = Some MsgSent \<and>
     infobipStatusMapping ''EXPIRED'' = Some MsgSent \<and>
     infobipStatusMapping ''DELIVERED'' = Some MsgDelivered \<and>
     infobipStatusMapping ''REJECTED'' = Some MsgFailed \<and>
     infobipStatusMapping ''UNDELIVERABLE'' = Some MsgFailed \<and>
     (g \<notin> {''PENDING'', ''EXPIRED'', ''DELIVERED'', ''REJECTED'', ''UNDELIVERABLE''} \<longrightarrow>
        infobipStatusMapping g = None \<and>
        StatusMessage h wld channel r =
          (WriteError (Errorf
             ''unknown status '%s', must be one of PENDING, DELIVERED, EXPIRED, REJECTED or UNDELIVERABLE''
             [S g]), wld)) \<and>
     (g \<in> {''PENDING'', ''EXPIRED'', ''DELIVERED'', ''REJECTED'', ''UNDELIVERABLE''} \<longrightarrow>
        (\<exists>v. infobipStatusMapping g = Some v \<and>
           (let status = \<lparr>st_Channel = channel, st_ID = NewMsgID (MessageID r0),
                           st_Status = v, st_Logs = []\<rparr>
            in StatusMessage h wld channel r =
                 (case WriteMsgStatus h wld status of
                    None \<Rightarrow> (WriteStatusSuccess [StatusEvent status] [status],
                              wld\<lparr>written_statuses := written_statuses wld @ [status]\<rparr>)
                  | Some err \<Rightarrow> (ReturnErr err, wld)))))"
proof -
  have tab: "infobipStatusMapping ''PENDING'' = Some MsgSent"
    "infobipStatusMapping ''EXPIRED'' = Some MsgSent"
    "infobipStatusMapping ''DELIVERED'' = Some MsgDelivered"
    "infobipStatusMapping ''REJECTED'' = Some MsgFailed"
    "infobipStatusMapping ''UNDELIVERABLE'' = Some MsgFailed"
    by (simp_all add: infobipStatusMapping_Some)
  have unknown: "StatusMessage h wld channel r =
          (WriteError (Errorf
             ''unknown status '%s', must be one of PENDING, DELIVERED, EXPIRED, REJECTED or UNDELIVERABLE''
             [S g]), wld)" if "infobipStatusMapping g = None"
    using that dec res g by (simp add: StatusMessage_def)
  have known: "StatusMessage h wld channel r =
       (let status = \<lparr>st_Channel = channel, st_ID = NewMsgID (MessageID r0),
                       st_Status = v, st_Logs = []\<rparr>
        in case WriteMsgStatus h wld status of
             None \<Rightarrow> (WriteStatusSuccess [StatusEvent status] [status],
                       wld\<lparr>written_statuses := written_statuses wld @ [status]\<rparr>)
           | Some err \<Rightarrow> (ReturnErr err, wld))" if "infobipStatusMapping g = Some v" for v
    using that dec res g
    by (simp add: StatusMessage_def NewMsgStatusForID_def Let_def split: option.splits)
  have ex: "\<exists>v. infobipStatusMapping g = Some v"
    if "g \<in> {''PENDING'', ''EXPIRED'', ''DELIVERED'', ''REJECTED'', ''UNDELIVERABLE''}"
    using that infobipStatusMapping_None[of g] by (cases "infobipStatusMapping g") auto
  show ?thesis
    using tab unknown known ex infobipStatusMapping_None[of g] by (metis (no_types, lifting))
qed

theorem C1_status_mapping_witness:
  "DecodeStatus (demo_status_handler [demo_status ''DELIVERED'']) ''{}'' =
     Inr \<lparr>Results = [demo_status ''DELIVERED'']\<rparr> \<and>
   StatusMessage (demo_status_handler [demo_status ''DELIVERED'']) demo_world demo_channel ''{}'' =
     (WriteStatusSuccess
        [StatusEvent \<lparr>st_Channel = demo_channel, st_ID = NewMsgID 12345,
                      st_Status = MsgDelivered, st_Logs = []\<rparr>]
        [\<lparr>st_Channel = demo_channel, st_ID = NewMsgID 12345,
          st_Status = MsgDelivered, st_Logs = []\<rparr>],
      demo_world\<lparr>written_statuses :=
        [\<lparr>st_Channel = demo_channel, st_ID = NewMsgID 12345,
          st_Status = MsgDelivered, st_Logs = []\<rparr>]\<rparr>) \<and>
   StatusMessage (demo_status_handler [demo_status ''SENT'']) demo_world demo_channel ''{}'' =
     (WriteError (Errorf
        ''unknown status '%s', must be one of PENDING, DELIVERED, EXPIRED, REJECTED or UNDELIVERABLE''
        [S ''SENT'']), demo_world)"
  using
    C1_status_mapping [of "demo_status_handler [demo_status ''DELIVERED'']" "''{}''"
      "\<lparr>Results = [demo_status ''DELIVERED'']\<rparr>" "demo_status ''DELIVERED''" "[]"
      "''DELIVERED''" demo_world demo_channel]
    C1_status_mapping [of "demo_status_handler [demo_status ''SENT'']" "''{}''"
      "\<lparr>Results = [demo_status ''SENT'']\<rparr>" "demo_status ''SENT''" "[]"
      "''SENT''" demo_world demo_channel]
  by (simp add: demo_status_handler_def demo_handler_def demo_status_def demo_world_def Let_def)

subsection \<open>The loop of ReceiveMessage\<close>

lemma receive_loop_skip:
  "\<forall>rec \<in> set rs. im_Text rec = '''' \<Longrightarrow> receive_loop h channel rs msgs wld = (Inr msgs, wld)"
  by (induction rs) simp_all

lemma receive_loop_filter:
  "receive_loop h channel rs msgs wld =
   receive_loop h channel (filter (\<lambda>rec. im_Text rec \<noteq> '''') rs) msgs wld"
  by (induction rs arbitrary: msgs wld)
     (auto simp: Let_def split: sum.splits option.splits)

lemma receive_loop_writes_ok:
  assumes ok: "\<forall>w m. WriteMsg h w m = None"
  shows "receive_loop h channel rs msgs wld =
     (case first_parse_error h rs (clock_reads wld) of
        Some err \<Rightarrow> Inl (WriteError err)
      | None \<Rightarrow> Inr (msgs @ accepted_msgs h channel rs (clock_reads wld)),
      wld\<lparr>clock_reads := clock_reads wld + length (accepted_msgs h channel rs (clock_reads wld)) +
             (case first_parse_error h rs (clock_reads wld) of Some err \<Rightarrow> 1 | None \<Rightarrow> 0),
          written_msgs := written_msgs wld @ accepted_msgs h channel rs (clock_reads wld)\<rparr>)"
proof (induction rs arbitrary: msgs wld)
  case Nil
  show ?case by simp
next
  case (Cons rec rest)
  show ?case
  proof (cases "im_Text rec = ''''")
    case True
    then show ?thesis using Cons.IH [of msgs wld] by (simp split: option.splits)
  next
    case False
    show ?thesis
    proof (cases "incoming_date h (clock_reads wld) rec")
      case (Inl err)
      then show ?thesis using False
        by (simp add: incoming_date_def Let_def split: if_splits)
    next
      case (Inr date)
      then show ?thesis using False ok
        by (simp add: Cons.IH incoming_date_def incoming_msg_def NewIncomingMsg_def
            WithReceivedOn_def WithExternalID_def Let_def split: if_splits option.splits)
    qed
  qed
qed

lemma accepted_msgs_append:
  "timestamps_ok h pre \<Longrightarrow>
   accepted_msgs h channel (pre @ xs) k =
     accepted_msgs h channel pre k @ accepted_msgs h channel xs (k + length (with_text pre))"
  by (induction pre arbitrary: k)
     (auto simp: timestamps_ok_def with_text_def incoming_date_def split: sum.splits)

lemma first_parse_error_append:
  "timestamps_ok h pre \<Longrightarrow>
   first_parse_error h (pre @ xs) k = first_parse_error h xs (k + length (with_text pre))"
  by (induction pre arbitrary: k)
     (auto simp: timestamps_ok_def with_text_def incoming_date_def split: sum.splits)

lemma accepted_msgs_Text:
  "timestamps_ok h rs \<Longrightarrow>
   map msg_Text (accepted_msgs h channel rs k) = map im_Text (with_text rs)"
  by (induction rs arbitrary: k)
     (auto simp: timestamps_ok_def with_text_def incoming_date_def incoming_msg_def
        split: sum.splits)

lemma accepted_msgs_ExternalID:
  "timestamps_ok h rs \<Longrightarrow>
   map msg_ExternalID (accepted_msgs h channel rs k) = map im_MessageID (with_text rs)"
  by (induction rs arbitrary: k)
     (auto simp: timestamps_ok_def with_text_def incoming_date_def incoming_msg_def
        split: sum.splits)

lemma accepted_msgs_length:
  "timestamps_ok h rs \<Longrightarrow> length (accepted_msgs h channel rs k) = length (with_text rs)"
  by (induction rs arbitrary: k)
     (auto simp: timestamps_ok_def with_text_def incoming_date_def split: sum.splits)

lemma first_parse_error_ok: "timestamps_ok h rs \<Longrightarrow> first_parse_error h rs k = None"
  using first_parse_error_append [of h rs "[]" k] by simp

lemma ReceiveMessage_writes_ok:
  assumes dec: "DecodeInbound h r = Inr ie" and nz: "MessageCount ie \<noteq> 0"
    and ok: "\<forall>w m. WriteMsg h w m = None"
  shows "fst (ReceiveMessage h wld channel r) =
           (case first_parse_error h (ie_Results ie) (clock_reads wld) of
              Some err \<Rightarrow> WriteError err
            | None \<Rightarrow>
                (case accepted_msgs h channel (ie_Results ie) (clock_reads wld) of
                   [] \<Rightarrow> WriteIgnored ''ignoring request, no message''
                 | m # ms \<Rightarrow> WriteMsgSuccess [MsgEvent m] (m # ms)))"
    and "written_msgs (snd (ReceiveMessage h wld channel r)) =
           written_msgs wld @ accepted_msgs h channel (ie_Results ie) (clock_reads wld)"
  using dec nz
  by (simp_all add: ReceiveMessage_def receive_loop_writes_ok [OF ok]
        split: option.splits list.splits)

lemma receive_loop_decoder:
  "receive_loop (h\<lparr>DecodeInbound := f\<rparr>) channel rs msgs wld = receive_loop h channel rs msgs wld"
  by (induction rs arbitrary: msgs wld)
     (auto simp: Let_def split: sum.splits option.splits)

lemma demo_inbound_handler_fields:
  "DecodeInbound (demo_inbound_handler ie) r = Inr ie"
  "WriteMsg (demo_inbound_handler ie) w m = None"
  "Now (demo_inbound_handler ie) k = 1000 + int k"
  "time_Parse (demo_inbound_handler ie) layout v =
     (if v = ''2016-10-06T09:28:39.220+0000'' then Inr 1475746119220
      else Inl (External ''parsing time''))"
  "NewTelURNForCountry (demo_inbound_handler ie) number country = ''tel:+'' @ number"
  by (simp_all add: demo_inbound_handler_def demo_handler_def)

text \<open>
  C5. When the decoded inbound batch declares a message count of zero, or when every
  record of it has empty text (whatever the declared count), \<open>ReceiveMessage\<close> answers
  with the "ignored" acknowledgment, which is neither an error nor a success, and leaves
  the world as it was: no message is persisted.
\<close>

theorem C5_ignored_batches:
  assumes dec: "DecodeInbound h r = Inr ie"
    and ign: "MessageCount ie = 0 \<or> (\<forall>rec \<in> set (ie_Results ie). im_Text rec = '''')"
  shows "ReceiveMessage h wld channel r = (WriteIgnored ''ignoring request, no message'', wld) \<and>
         (\<forall>e. fst (ReceiveMessage h wld channel r) \<noteq> WriteError e) \<and>
         (\<forall>e. fst (ReceiveMessage h wld channel r) \<noteq> ReturnErr e) \<and>
         (\<forall>ev ms. fst (ReceiveMessage h wld channel r) \<noteq> WriteMsgSuccess ev ms) \<and>
         written_msgs (snd (ReceiveMessage h wld channel r)) = written_msgs wld"
proof -
  have "ReceiveMessage h wld channel r = (WriteIgnored ''ignoring request, no message'', wld)"
  proof (cases "MessageCount ie = 0")
    case True
    then show ?thesis using dec by (simp add: ReceiveMessage_def)
  next
    case False
    with ign have "\<forall>rec \<in> set (ie_Results ie). im_Text rec = ''''" by simp
    then have "receive_loop h channel (ie_Results ie) [] wld = (Inr [], wld)"
      by (rule receive_loop_skip)
    then show ?thesis using dec False by (simp add: ReceiveMessage_def)
  qed
  then show ?thesis by simp
qed

theorem C5_ignored_batches_witness:
  "ReceiveMessage (demo_inbound_handler (demo_batch 0 [demo_inbound ''hello'' '''']))
     demo_world demo_channel ''{}'' =
     (WriteIgnored ''ignoring request, no message'', demo_world) \<and>
   ReceiveMessage
     (demo_inbound_handler (demo_batch 3 [demo_inbound '''' '''', demo_inbound '''' ''yesterday'']))
     demo_world demo_channel ''{}'' =
     (WriteIgnored ''ignoring request, no message'', demo_world)"
  using
    C5_ignored_batches [of "demo_inbound_handler (demo_batch 0 [demo_inbound ''hello'' ''''])"
      "''{}''" "demo_batch 0 [demo_inbound ''hello'' '''']" demo_world demo_channel]
    C5_ignored_batches [of
      "demo_inbound_handler (demo_batch 3 [demo_inbound '''' '''', demo_inbound '''' ''yesterday''])"
      "''{}''" "demo_batch 3 [demo_inbound '''' '''', demo_inbound '''' ''yesterday'']"
      demo_world demo_channel]
  by (simp add: demo_inbound_handler_def demo_handler_def demo_batch_def demo_inbound_def)

text \<open>
  C10, as the code has it. The declared count is only tested for zero, but "persists
  exactly the records with non-empty text" fails without a proviso: a batch declaring
  five messages, with one record without timestamp and one with a malformed timestamp,
  persists the first record only (the counterexample below).

  Amended: for a decoded inbound batch whose declared count is not zero, the count plays
  no further part: replacing it by any other nonzero count, or by the actual number of
  records, gives the same outcome and the same world; so does dropping the records with
  empty text. When the backend's writes succeed and the timestamps of the records with
  non-empty text are absent or well-formed, the messages persisted by the call are
  exactly those built from the records with non-empty text, one each and in order,
  whatever the declared count.
\<close>

theorem C10_count_only_tested_for_zero:
  assumes dec: "DecodeInbound h r = Inr ie" and nz: "MessageCount ie \<noteq> 0"
  shows "(\<forall>n. n \<noteq> 0 \<longrightarrow>
            ReceiveMessage (h\<lparr>DecodeInbound := (\<lambda>r. Inr (ie\<lparr>MessageCount := n\<rparr>))\<rparr>) wld channel r =
            ReceiveMessage h wld channel r) \<and>
         ReceiveMessage
           (h\<lparr>DecodeInbound := (\<lambda>r. Inr (ie\<lparr>MessageCount := int (length (ie_Results ie))\<rparr>))\<rparr>)
           wld channel r =
           ReceiveMessage h wld channel r \<and>
         ReceiveMessage
           (h\<lparr>DecodeInbound := (\<lambda>r. Inr (ie\<lparr>ie_Results := with_text (ie_Results ie)\<rparr>))\<rparr>)
           wld channel r =
           ReceiveMessage h wld channel r \<and>
         ((\<forall>w m. WriteMsg h w m = None) \<and> timestamps_ok h (ie_Results ie) \<longrightarrow>
            written_msgs (snd (ReceiveMessage h wld channel r)) =
              written_msgs wld @ accepted_msgs h channel (ie_Results ie) (clock_reads wld) \<and>
            length (accepted_msgs h channel (ie_Results ie) (clock_reads wld)) =
              length (with_text (ie_Results ie)) \<and>
            map msg_Text (accepted_msgs h channel (ie_Results ie) (clock_reads wld)) =
              map im_Text (with_text (ie_Results ie)) \<and>
            map msg_ExternalID (accepted_msgs h channel (ie_Results ie) (clock_reads wld)) =
              map im_MessageID (with_text (ie_Results ie)))"
proof -
  have count: "ReceiveMessage (h\<lparr>DecodeInbound := (\<lambda>r. Inr (ie\<lparr>MessageCount := n\<rparr>))\<rparr>) wld channel r =
               ReceiveMessage h wld channel r" if "n \<noteq> 0" for n
    using that dec nz by (simp add: ReceiveMessage_def receive_loop_decoder)
  have len: "ReceiveMessage
           (h\<lparr>DecodeInbound := (\<lambda>r. Inr (ie\<lparr>MessageCount := int (length (ie_Results ie))\<rparr>))\<rparr>)
           wld channel r = ReceiveMessage h wld channel r"
  proof (cases "ie_Results ie = []")
    case True
    then show ?thesis using dec nz by (simp add: ReceiveMessage_def)
  next
    case False
    then have "int (length (ie_Results ie)) \<noteq> 0" by simp
    then show ?thesis by (rule count)
  qed
  have flt: "ReceiveMessage
           (h\<lparr>DecodeInbound := (\<lambda>r. Inr (ie\<lparr>ie_Results := with_text (ie_Results ie)\<rparr>))\<rparr>)
           wld channel r = ReceiveMessage h wld channel r"
    using dec nz receive_loop_filter [of h channel "ie_Results ie" "[]" wld]
    by (simp add: ReceiveMessage_def with_text_def receive_loop_decoder)
  have per: "written_msgs (snd (ReceiveMessage h wld channel r)) =
       written_msgs wld @ accepted_msgs h channel (ie_Results ie) (clock_reads wld)"
    if "\<forall>w m. WriteMsg h w m = None"
    using ReceiveMessage_writes_ok(2) [OF dec nz that] .
  show ?thesis
  proof (intro conjI allI impI)
    fix n :: int
    assume "n \<noteq> 0"
    then show "ReceiveMessage (h\<lparr>DecodeInbound := (\<lambda>r. Inr (ie\<lparr>MessageCount := n\<rparr>))\<rparr>) wld channel r =
               ReceiveMessage h wld channel r"
      by (rule count)
  next
    show "ReceiveMessage
           (h\<lparr>DecodeInbound := (\<lambda>r. Inr (ie\<lparr>MessageCount := int (length (ie_Results ie))\<rparr>))\<rparr>)
           wld channel r = ReceiveMessage h wld channel r"
      by (rule len)
  next
    show "ReceiveMessage
           (h\<lparr>DecodeInbound := (\<lambda>r. Inr (ie\<lparr>ie_Results := with_text (ie_Results ie)\<rparr>))\<rparr>)
           wld channel r = ReceiveMessage h wld channel r"
      by (rule flt)
  next
    assume "(\<forall>w m. WriteMsg h w m = None) \<and> timestamps_ok h (ie_Results ie)"
    then show "written_msgs (snd (ReceiveMessage h wld channel r)) =
       written_msgs wld @ accepted_msgs h channel (ie_Results ie) (clock_reads wld)"
      using per by blast
  next
    assume "(\<forall>w m. WriteMsg h w m = None) \<and> timestamps_ok h (ie_Results ie)"
    then show "length (accepted_msgs h channel (ie_Results ie) (clock_reads wld)) =
              length (with_text (ie_Results ie))"
      by (simp add: accepted_msgs_length)
  next
    assume "(\<forall>w m. WriteMsg h w m = None) \<and> timestamps_ok h (ie_Results ie)"
    then show "map msg_Text (accepted_msgs h channel (ie_Results ie) (clock_reads wld)) =
              map im_Text (with_text (ie_Results ie))"
      by (simp add: accepted_msgs_Text)
  next
    assume "(\<forall>w m. WriteMsg h w m = None) \<and> timestamps_ok h (ie_Results ie)"
    then show "map msg_ExternalID (accepted_msgs h channel (ie_Results ie) (clock_reads wld)) =
              map im_MessageID (with_text (ie_Results ie))"
      by (simp add: accepted_msgs_ExternalID)
  qed
qed

theorem C10_count_only_tested_for_zero_witness:
  "MessageCount (demo_batch 5
     [demo_inbound ''hello'' '''', demo_inbound '''' '''',
      demo_inbound ''world'' ''2016-10-06T09:28:39.220+0000'']) = 5 \<and>
   map msg_Text (written_msgs (snd (ReceiveMessage
     (demo_inbound_handler (demo_batch 5
        [demo_inbound ''hello'' '''', demo_inbound '''' '''',
         demo_inbound ''world'' ''2016-10-06T09:28:39.220+0000'']))
     demo_world demo_channel ''{}''))) = [''hello'', ''world'']"
proof -
  let ?rs = "[demo_inbound ''hello'' '''', demo_inbound '''' '''',
              demo_inbound ''world'' ''2016-10-06T09:28:39.220+0000'']"
  let ?ie = "demo_batch 5 ?rs"
  let ?h = "demo_inbound_handler ?ie"
  have dec: "DecodeInbound ?h ''{}'' = Inr ?ie"
    by (simp add: demo_inbound_handler_fields)
  have nz: "MessageCount ?ie \<noteq> 0"
    by (simp add: demo_batch_def)
  have ok: "\<forall>w m. WriteMsg ?h w m = None"
    by (simp add: demo_inbound_handler_fields)
  have ts: "timestamps_ok ?h (ie_Results ?ie)"
    by (simp add: timestamps_ok_def demo_batch_def demo_inbound_def demo_inbound_handler_fields)
  have res: "ie_Results ?ie = ?rs"
    by (simp add: demo_batch_def)
  have "written_msgs (snd (ReceiveMessage ?h demo_world demo_channel ''{}'')) =
          written_msgs demo_world @ accepted_msgs ?h demo_channel (ie_Results ?ie) (clock_reads demo_world)"
    using C10_count_only_tested_for_zero [OF dec nz, of demo_world demo_channel] ok ts by blast
  moreover have "map msg_Text (accepted_msgs ?h demo_channel ?rs (clock_reads demo_world)) =
                   [''hello'', ''world'']"
    by (simp add: incoming_date_def incoming_msg_def demo_inbound_def demo_inbound_handler_fields)
  ultimately show ?thesis
    by (simp add: res demo_world_def demo_batch_def)
qed

text \<open>
  The batch declares five messages and has two records, both with non-empty text; the
  second has a malformed timestamp. The call persists the first record's message only.
\<close>

theorem C10_persists_exactly_counterexample:
  "MessageCount (demo_batch 5 [demo_inbound ''hello'' '''', demo_inbound ''world'' ''yesterday'']) = 5 \<and>
   map im_Text (with_text [demo_inbound ''hello'' '''', demo_inbound ''world'' ''yesterday'']) =
     [''hello'', ''world''] \<and>
   map msg_Text (written_msgs (snd (ReceiveMessage
     (demo_inbound_handler (demo_batch 5
        [demo_inbound ''hello'' '''', demo_inbound ''world'' ''yesterday'']))
     demo_world demo_channel ''{}''))) = [''hello''] \<and>
   \<not> (map msg_Text (written_msgs (snd (ReceiveMessage
     (demo_inbound_handler (demo_batch 5
        [demo_inbound ''hello'' '''', demo_inbound ''world'' ''yesterday'']))
     demo_world demo_channel ''{}''))) =
     map im_Text (with_text [demo_inbound ''hello'' '''', demo_inbound ''world'' ''yesterday'']))"
proof -
  let ?rs = "[demo_inbound ''hello'' '''', demo_inbound ''world'' ''yesterday'']"
  let ?ie = "demo_batch 5 ?rs"
  let ?h = "demo_inbound_handler ?ie"
  have dec: "DecodeInbound ?h ''{}'' = Inr ?ie"
    by (simp add: demo_inbound_handler_fields)
  have count: "MessageCount ?ie = 5"
    by (simp add: demo_batch_def)
  then have nz: "MessageCount ?ie \<noteq> 0"
    by simp
  have ok: "\<forall>w m. WriteMsg ?h w m = None"
    by (simp add: demo_inbound_handler_fields)
  have res: "ie_Results ?ie = ?rs"
    by (simp add: demo_batch_def)
  have texts: "map im_Text (with_text ?rs) = [''hello'', ''world'']"
    by (simp add: with_text_def demo_inbound_def)
  have acc: "map msg_Text (accepted_msgs ?h demo_channel ?rs 0) = [''hello'']"
    by (simp add: incoming_date_def incoming_msg_def demo_inbound_def demo_inbound_handler_fields)
  have w0: "written_msgs demo_world = []" "clock_reads demo_world = 0"
    by (simp_all add: demo_world_def)
  have written: "written_msgs (snd (ReceiveMessage ?h demo_world demo_channel ''{}'')) =
                   accepted_msgs ?h demo_channel ?rs 0"
    using ReceiveMessage_writes_ok(2) [OF dec nz ok, of demo_world demo_channel]
    unfolding res w0 by simp
  have persisted: "map msg_Text (written_msgs (snd (ReceiveMessage ?h demo_world demo_channel ''{}''))) =
                     [''hello'']"
    unfolding written by (rule acc)
  show ?thesis
    unfolding persisted texts using count by simp
qed

text \<open>
  C6, as the code has it. The claim's "no partial persistence" fails: the loop writes each
  message as soon as it is built, so the records before the malformed one are already
  persisted when the parse error ends the call (the counterexample: a record with an
  absent timestamp followed by one with a malformed timestamp leaves one message
  persisted).

  Amended: take a decoded inbound batch with a nonzero declared count whose records are
  \<open>pre @ x # post\<close>, where \<open>x\<close> has non-empty text, the records of \<open>pre\<close> with non-empty text
  have absent or well-formed timestamps, and the backend's writes succeed. If the
  timestamp of \<open>x\<close> is malformed, the call fails with that parse error; the messages
  persisted by the call are exactly those of the records of \<open>pre\<close> with non-empty text, none
  of \<open>x\<close> or \<open>post\<close>, and none at all when \<open>pre\<close> has no record with non-empty text. If the
  timestamp of \<open>x\<close> is absent, \<open>x\<close> is persisted with the clock's reading at that moment as
  its received timestamp.
\<close>

theorem C6_malformed_timestamp:
  assumes dec: "DecodeInbound h r = Inr ie" and nz: "MessageCount ie \<noteq> 0"
    and ok: "\<forall>w m. WriteMsg h w m = None"
    and split: "ie_Results ie = pre @ x # post"
    and pre: "timestamps_ok h pre" and nonempty: "im_Text x \<noteq> ''''"
  shows
    "(im_ReceivedAt x \<noteq> '''' \<and> time_Parse h time_layout (im_ReceivedAt x) = Inl err \<longrightarrow>
        fst (ReceiveMessage h wld channel r) = WriteError err \<and>
        written_msgs (snd (ReceiveMessage h wld channel r)) =
          written_msgs wld @ accepted_msgs h channel pre (clock_reads wld) \<and>
        map msg_Text (accepted_msgs h channel pre (clock_reads wld)) = map im_Text (with_text pre) \<and>
        (with_text pre = [] \<longrightarrow>
           written_msgs (snd (ReceiveMessage h wld channel r)) = written_msgs wld)) \<and>
     (im_ReceivedAt x = '''' \<longrightarrow>
        written_msgs (snd (ReceiveMessage h wld channel r)) =
          written_msgs wld @ accepted_msgs h channel pre (clock_reads wld) @
          incoming_msg h channel x (Now h (clock_reads wld + length (with_text pre))) #
          accepted_msgs h channel post (Suc (clock_reads wld + length (with_text pre))))"
proof -
  let ?k = "clock_reads wld"
  let ?k' = "clock_reads wld + length (with_text pre)"
  have acc: "accepted_msgs h channel (ie_Results ie) ?k =
               accepted_msgs h channel pre ?k @ accepted_msgs h channel (x # post) ?k'"
    unfolding split by (rule accepted_msgs_append [OF pre])
  have fpe: "first_parse_error h (ie_Results ie) ?k = first_parse_error h (x # post) ?k'"
    unfolding split by (rule first_parse_error_append [OF pre])
  have written: "written_msgs (snd (ReceiveMessage h wld channel r)) =
                   written_msgs wld @ accepted_msgs h channel (ie_Results ie) ?k"
    by (rule ReceiveMessage_writes_ok(2) [OF dec nz ok])
  have outcome: "fst (ReceiveMessage h wld channel r) =
           (case first_parse_error h (ie_Results ie) ?k of
              Some err \<Rightarrow> WriteError err
            | None \<Rightarrow>
                (case accepted_msgs h channel (ie_Results ie) ?k of
                   [] \<Rightarrow> WriteIgnored ''ignoring request, no message''
                 | m # ms \<Rightarrow> WriteMsgSuccess [MsgEvent m] (m # ms)))"
    by (rule ReceiveMessage_writes_ok(1) [OF dec nz ok])
  have texts: "map msg_Text (accepted_msgs h channel pre ?k) = map im_Text (with_text pre)"
    by (rule accepted_msgs_Text [OF pre])
  have malformed:
    "fst (ReceiveMessage h wld channel r) = WriteError err \<and>
     written_msgs (snd (ReceiveMessage h wld channel r)) =
       written_msgs wld @ accepted_msgs h channel pre ?k"
    if "im_ReceivedAt x \<noteq> ''''" "time_Parse h time_layout (im_ReceivedAt x) = Inl err"
  proof -
    from that nonempty have "incoming_date h ?k' x = Inl err"
      by (simp add: incoming_date_def)
    with nonempty have "first_parse_error h (x # post) ?k' = Some err"
      and "accepted_msgs h channel (x # post) ?k' = []"
      by simp_all
    then show ?thesis
      by (simp add: outcome written acc fpe)
  qed
  have none: "written_msgs (snd (ReceiveMessage h wld channel r)) = written_msgs wld"
    if "im_ReceivedAt x \<noteq> ''''" "time_Parse h time_layout (im_ReceivedAt x) = Inl err"
      "with_text pre = []"
  proof -
    have "length (accepted_msgs h channel pre ?k) = 0"
      using accepted_msgs_length [OF pre, of channel ?k] that(3) by simp
    then show ?thesis using malformed [OF that(1,2)] by simp
  qed
  have absent: "written_msgs (snd (ReceiveMessage h wld channel r)) =
          written_msgs wld @ accepted_msgs h channel pre ?k @
          incoming_msg h channel x (Now h ?k') # accepted_msgs h channel post (Suc ?k')"
    if "im_ReceivedAt x = ''''"
  proof -
    from that have "incoming_date h ?k' x = Inr (Now h ?k')"
      by (simp add: incoming_date_def)
    with nonempty have "accepted_msgs h channel (x # post) ?k' =
        incoming_msg h channel x (Now h ?k') # accepted_msgs h channel post (Suc ?k')"
      by simp
    then show ?thesis by (simp add: written acc)
  qed
  show ?thesis
    using malformed none absent texts by blast
qed

theorem C6_malformed_timestamp_witness:
  "fst (ReceiveMessage
     (demo_inbound_handler (demo_batch 2
        [demo_inbound ''hello'' '''', demo_inbound ''world'' ''yesterday'']))
     demo_world demo_channel ''{}'') = WriteError (External ''parsing time'') \<and>
   written_msgs (snd (ReceiveMessage
     (demo_inbound_handler (demo_batch 2
        [demo_inbound ''hello'' '''', demo_inbound ''world'' ''yesterday'']))
     demo_world demo_channel ''{}'')) =
     [\<lparr>msg_Channel = demo_channel, msg_ID = NilMsgID, msg_URN = ''tel:+385916242493'',
       msg_Text = ''hello'', msg_ReceivedOn = Some 1000,
       msg_ExternalID = ''817790313235066447''\<rparr>]"
proof -
  let ?pre = "[demo_inbound ''hello'' '''']"
  let ?x = "demo_inbound ''world'' ''yesterday''"
  let ?ie = "demo_batch 2 [demo_inbound ''hello'' '''', demo_inbound ''world'' ''yesterday'']"
  let ?h = "demo_inbound_handler ?ie"
  have dec: "DecodeInbound ?h ''{}'' = Inr ?ie"
    by (simp add: demo_inbound_handler_fields)
  have nz: "MessageCount ?ie \<noteq> 0"
    by (simp add: demo_batch_def)
  have ok: "\<forall>w m. WriteMsg ?h w m = None"
    by (simp add: demo_inbound_handler_fields)
  have split: "ie_Results ?ie = ?pre @ ?x # []"
    by (simp add: demo_batch_def)
  have pre: "timestamps_ok ?h ?pre"
    by (simp add: timestamps_ok_def demo_inbound_def)
  have nonempty: "im_Text ?x \<noteq> ''''"
    by (simp add: demo_inbound_def)
  have bad: "im_ReceivedAt ?x \<noteq> '''' \<and>
             time_Parse ?h time_layout (im_ReceivedAt ?x) = Inl (External ''parsing time'')"
    by (simp add: demo_inbound_def demo_inbound_handler_fields)
  have "fst (ReceiveMessage ?h demo_world demo_channel ''{}'') = WriteError (External ''parsing time'') \<and>
        written_msgs (snd (ReceiveMessage ?h demo_world demo_channel ''{}'')) =
          written_msgs demo_world @ accepted_msgs ?h demo_channel ?pre (clock_reads demo_world)"
    using C6_malformed_timestamp [OF dec nz ok split pre nonempty,
        of "External ''parsing time''" demo_world demo_channel] bad
    by blast
  moreover have "written_msgs demo_world @ accepted_msgs ?h demo_channel ?pre (clock_reads demo_world) =
     [\<lparr>msg_Channel = demo_channel, msg_ID = NilMsgID, msg_URN = ''tel:+385916242493'',
       msg_Text = ''hello'', msg_ReceivedOn = Some 1000,
       msg_ExternalID = ''817790313235066447''\<rparr>]"
    by (simp add: demo_world_def incoming_date_def incoming_msg_def demo_inbound_def
          demo_inbound_handler_fields)
  ultimately show ?thesis by simp
qed

text \<open>
  The claim as stated fails on this batch: its second record has non-empty text and a
  malformed timestamp, the call fails with the parse error, and the first record's
  message has been persisted.
\<close>

theorem C6_partial_persistence_counterexample:
  "\<not> (written_msgs (snd (ReceiveMessage
          (demo_inbound_handler (demo_batch 2
             [demo_inbound ''hello'' '''', demo_inbound ''world'' ''yesterday'']))
          demo_world demo_channel ''{}'')) = written_msgs demo_world) \<and>
   im_Text (demo_inbound ''world'' ''yesterday'') = ''world'' \<and>
   time_Parse
     (demo_inbound_handler (demo_batch 2
        [demo_inbound ''hello'' '''', demo_inbound ''world'' ''yesterday'']))
     time_layout (im_ReceivedAt (demo_inbound ''world'' ''yesterday'')) =
     Inl (External ''parsing time'') \<and>
   fst (ReceiveMessage
     (demo_inbound_handler (demo_batch 2
        [demo_inbound ''hello'' '''', demo_inbound ''world'' ''yesterday'']))
     demo_world demo_channel ''{}'') = WriteError (External ''parsing time'') \<and>
   map msg_Text (written_msgs (snd (ReceiveMessage
     (demo_inbound_handler (demo_batch 2
        [demo_inbound ''hello'' '''', demo_inbound ''world'' ''yesterday'']))
     demo_world demo_channel ''{}''))) = [''hello'']"
proof -
  let ?rs = "[demo_inbound ''hello'' '''', demo_inbound ''world'' ''yesterday'']"
  let ?ie = "demo_batch 2 ?rs"
  let ?h = "demo_inbound_handler ?ie"
  have dec: "DecodeInbound ?h ''{}'' = Inr ?ie"
    by (simp add: demo_inbound_handler_fields)
  have nz: "MessageCount ?ie \<noteq> 0"
    by (simp add: demo_batch_def)
  have ok: "\<forall>w m. WriteMsg ?h w m = None"
    by (simp add: demo_inbound_handler_fields)
  have res: "ie_Results ?ie = ?rs"
    by (simp add: demo_batch_def)
  have acc: "map msg_Text (accepted_msgs ?h demo_channel ?rs 0) = [''hello'']"
    by (simp add: incoming_date_def incoming_msg_def demo_inbound_def demo_inbound_handler_fields)
  have fpe: "first_parse_error ?h ?rs 0 = Some (External ''parsing time'')"
    by (simp add: incoming_date_def demo_inbound_def demo_inbound_handler_fields)
  have w0: "written_msgs demo_world = []" "clock_reads demo_world = 0"
    by (simp_all add: demo_world_def)
  have written: "written_msgs (snd (ReceiveMessage ?h demo_world demo_channel ''{}'')) =
                   accepted_msgs ?h demo_channel ?rs 0"
    using ReceiveMessage_writes_ok(2) [OF dec nz ok, of demo_world demo_channel]
    unfolding res w0 by simp
  have outcome: "fst (ReceiveMessage ?h demo_world demo_channel ''{}'') =
                   WriteError (External ''parsing time'')"
    using ReceiveMessage_writes_ok(1) [OF dec nz ok, of demo_world demo_channel]
    unfolding res w0 fpe by simp
  have ne: "accepted_msgs ?h demo_channel ?rs 0 \<noteq> []"
    using acc by auto
  show ?thesis
    using written outcome acc ne
    by (simp add: w0 demo_inbound_def demo_inbound_handler_fields)
qed

subsection \<open>The first record of a status batch\<close>

text \<open>
  C9. Two decoded status batches with the same first record give the same outcome and
  the same world, whatever their other records are; in particular a batch gives what the
  batch cut down to its first record gives.
\<close>

theorem C9_first_record_only:
  assumes d1: "DecodeStatus h r1 = Inr env1" and d2: "DecodeStatus h r2 = Inr env2"
    and e1: "Results env1 = r0 # rest1" and e2: "Results env2 = r0 # rest2"
  shows "StatusMessage h wld channel r1 = StatusMessage h wld channel r2 \<and>
         StatusMessage (h\<lparr>DecodeStatus := (\<lambda>r. Inr (env1\<lparr>Results := [r0]\<rparr>))\<rparr>) wld channel r1 =
           StatusMessage h wld channel r1"
  using d1 d2 e1 e2 by (simp add: StatusMessage_def Let_def split: option.splits)

theorem C9_first_record_only_witness:
  "StatusMessage demo_two_batches_handler demo_world demo_channel ''two'' =
   StatusMessage demo_two_batches_handler demo_world demo_channel ''one'' \<and>
   DecodeStatus demo_two_batches_handler ''two'' =
     Inr \<lparr>Results = [demo_status ''DELIVERED'', demo_status ''REJECTED'']\<rparr> \<and>
   DecodeStatus demo_two_batches_handler ''one'' = Inr \<lparr>Results = [demo_status ''DELIVERED'']\<rparr>"
proof -
  have d1: "DecodeStatus demo_two_batches_handler ''two'' =
              Inr \<lparr>Results = [demo_status ''DELIVERED'', demo_status ''REJECTED'']\<rparr>"
    by (simp add: demo_two_batches_handler_def)
  have d2: "DecodeStatus demo_two_batches_handler ''one'' =
              Inr \<lparr>Results = [demo_status ''DELIVERED'']\<rparr>"
    by (simp add: demo_two_batches_handler_def)
  have e1: "Results \<lparr>Results = [demo_status ''DELIVERED'', demo_status ''REJECTED'']\<rparr> =
              demo_status ''DELIVERED'' # [demo_status ''REJECTED'']"
    by simp
  have e2: "Results \<lparr>Results = [demo_status ''DELIVERED'']\<rparr> = demo_status ''DELIVERED'' # []"
    by simp
  show ?thesis
    using C9_first_record_only [OF d1 d2 e1 e2, of demo_world demo_channel] d1 d2 by blast
qed

text \<open>
  \<open>StatusMessage\<close> itself has no guard before \<open>Results[0]\<close>: on a decoded batch with no
  record the index is out of range. Whether that can happen is up to the decoder.
\<close>

lemma StatusMessage_no_record:
  "DecodeStatus h r = Inr env \<Longrightarrow> Results env = [] \<Longrightarrow>
   StatusMessage h wld channel r = (Panic, wld)"
  by (simp add: StatusMessage_def)

text \<open>
  C7. With the decoder the spec describes: a request whose body unmarshals to a batch
  with a missing or empty results array is answered with a validation error, the world
  unchanged, and no request makes \<open>StatusMessage\<close> index an empty array.
\<close>

theorem C7_empty_results_rejected:
  assumes decoder: "DecodeStatus h = DecodeAndValidateJSON_status unmarshal"
  shows "(unmarshal r = Inr env \<and> Results env = [] \<longrightarrow>
            StatusMessage h wld channel r = (WriteError (Validation ''results''), wld)) \<and>
         fst (StatusMessage h wld channel r) \<noteq> Panic"
proof -
  have empty: "StatusMessage h wld channel r = (WriteError (Validation ''results''), wld)"
    if "unmarshal r = Inr env" "Results env = []"
    using that
    by (simp add: StatusMessage_def decoder DecodeAndValidateJSON_status_def
          validate_ibStatusEnvelope_def)
  have "Results env' \<noteq> []" if "DecodeAndValidateJSON_status unmarshal r = Inr env'" for env'
    using that
    by (auto simp: DecodeAndValidateJSON_status_def validate_ibStatusEnvelope_def
          split: sum.splits option.splits if_splits)
  then have "fst (StatusMessage h wld channel r) \<noteq> Panic"
    by (auto simp: StatusMessage_def decoder Let_def
          split: sum.splits list.splits option.splits)
  with empty show ?thesis by blast
qed

theorem C7_empty_results_rejected_witness:
  "StatusMessage (demo_validating_handler (\<lambda>r. Inr \<lparr>Results = []\<rparr>)) demo_world demo_channel
     ''{\"results\": []}'' = (WriteError (Validation ''results''), demo_world)"
proof -
  have decoder: "DecodeStatus (demo_validating_handler (\<lambda>r. Inr \<lparr>Results = []\<rparr>)) =
                   DecodeAndValidateJSON_status (\<lambda>r. Inr \<lparr>Results = []\<rparr>)"
    by (simp add: demo_validating_handler_def)
  show ?thesis
    using C7_empty_results_rejected [OF decoder, where r = "''{\"results\": []}''"
        and env = "\<lparr>Results = []\<rparr>" and wld = demo_world and channel = demo_channel]
    by simp
qed

subsection \<open>SendMsg\<close>

lemma StringConfigForKey_empty:
  "StringConfigForKey c k '''' = '''' \<longleftrightarrow>
     map_of (Config c) k = None \<or> map_of (Config c) k = Some ''''"
  by (simp add: StringConfigForKey_def split: option.splits)

lemma demo_http_handler_fields:
  "MakeHTTPRequest (demo_http_handler answer) req = answer"
  "json_Encode (demo_http_handler answer) e = Inr ''{}''"
  "jsonparser_GetInt (demo_http_handler answer) body path =
     (if body = ''ok'' then (1, None) else (0, Some (External ''Key path not found'')))"
  by (simp_all add: demo_http_handler_def demo_handler_def)

lemma demo_msg_credentials:
  "StringConfigForKey (msg_Channel demo_msg) ConfigUsername '''' = ''user1''"
  "StringConfigForKey (msg_Channel demo_msg) ConfigPassword '''' = ''pass1''"
  by (simp_all add: StringConfigForKey_def demo_msg_def demo_channel_def ConfigUsername_def
        ConfigPassword_def)

text \<open>
  C3. When the channel's username, or its password, is absent from the configuration or
  configured as the empty string, \<open>SendMsg\<close> returns the configuration error (about the
  username when that is missing, else about the password) and leaves the world as it was:
  no HTTP request is issued.
\<close>

theorem C3_missing_credentials:
  assumes missing:
    "map_of (Config (msg_Channel msg)) ConfigUsername = None \<or>
     map_of (Config (msg_Channel msg)) ConfigUsername = Some '''' \<or>
     map_of (Config (msg_Channel msg)) ConfigPassword = None \<or>
     map_of (Config (msg_Channel msg)) ConfigPassword = Some ''''"
  shows "SendMsg h wld msg =
           (Inl (if StringConfigForKey (msg_Channel msg) ConfigUsername '''' = ''''
                 then Errorf ''no username set for IB channel'' []
                 else Errorf ''no password set for IB channel'' []), wld) \<and>
         http_requests (snd (SendMsg h wld msg)) = http_requests wld"
proof -
  have "StringConfigForKey (msg_Channel msg) ConfigUsername '''' = '''' \<or>
        StringConfigForKey (msg_Channel msg) ConfigPassword '''' = ''''"
    using missing unfolding StringConfigForKey_empty by blast
  then show ?thesis
    by (auto simp: SendMsg_def Let_def)
qed

theorem C3_missing_credentials_witness:
  "map_of (Config (msg_Channel demo_msg_no_password)) ConfigPassword = None \<and>
   SendMsg demo_handler demo_world demo_msg_no_password =
     (Inl (Errorf ''no password set for IB channel'' []), demo_world)"
proof -
  have absent: "map_of (Config (msg_Channel demo_msg_no_password)) ConfigPassword = None"
    by (simp add: demo_msg_no_password_def ConfigPassword_def)
  have user: "StringConfigForKey (msg_Channel demo_msg_no_password) ConfigUsername '''' \<noteq> ''''"
    by (simp add: StringConfigForKey_def demo_msg_no_password_def ConfigUsername_def)
  show ?thesis
    using C3_missing_credentials [of demo_msg_no_password demo_handler demo_world] absent user
    by simp
qed

text \<open>
  C4. With both credentials present and the envelope encoded, when the HTTP client
  returns a transport error: \<open>SendMsg\<close> returns a status and no error; the status is
  Errored and holds one log, the log of this attempt, which carries the transport error;
  the request has been issued once.
\<close>

theorem C4_transport_error:
  assumes user: "StringConfigForKey (msg_Channel msg) ConfigUsername '''' = username"
      "username \<noteq> ''''"
    and pass: "StringConfigForKey (msg_Channel msg) ConfigPassword '''' = password"
      "password \<noteq> ''''"
    and enc: "json_Encode h (ibMsg h msg) = Inr body"
    and http: "MakeHTTPRequest h (ibRequest username password body) = (rr, Some e)"
  shows "fst (SendMsg h wld msg) =
           Inr \<lparr>st_Channel = msg_Channel msg, st_ID = msg_ID msg, st_Status = MsgErrored,
                st_Logs = [length (channel_logs wld)]\<rparr> \<and>
         channel_logs (snd (SendMsg h wld msg)) =
           channel_logs wld @
           [\<lparr>log_Description = ''Message Send Error'', log_Channel = msg_Channel msg,
             log_MsgID = msg_ID msg, log_RR = rr, log_Error = Some e\<rparr>] \<and>
         http_requests (snd (SendMsg h wld msg)) =
           http_requests wld @ [ibRequest username password body]"
  using user pass enc http
  by (simp add: SendMsg_def Let_def NewMsgStatusForID_def AddLog_def WithError_def
        NewChannelLogFromRR_def)

theorem C4_transport_error_witness:
  "fst (SendMsg
          (demo_http_handler (\<lparr>StatusCode = 0, Body = ''''\<rparr>, Some (External ''connection refused'')))
          demo_world demo_msg) =
     Inr \<lparr>st_Channel = demo_channel, st_ID = NewMsgID 10, st_Status = MsgErrored, st_Logs = [0]\<rparr> \<and>
   map log_Error (channel_logs (snd (SendMsg
          (demo_http_handler (\<lparr>StatusCode = 0, Body = ''''\<rparr>, Some (External ''connection refused'')))
          demo_world demo_msg))) = [Some (External ''connection refused'')]"
proof -
  let ?h = "demo_http_handler (\<lparr>StatusCode = 0, Body = ''''\<rparr>, Some (External ''connection refused''))"
  have ne: "''user1'' \<noteq> ''''" "''pass1'' \<noteq> ''''" by simp_all
  have enc: "json_Encode ?h (ibMsg ?h demo_msg) = Inr ''{}''"
    by (simp add: demo_http_handler_fields)
  have http: "MakeHTTPRequest ?h (ibRequest ''user1'' ''pass1'' ''{}'') =
                (\<lparr>StatusCode = 0, Body = ''''\<rparr>, Some (External ''connection refused''))"
    by (simp add: demo_http_handler_fields)
  show ?thesis
    using C4_transport_error [OF demo_msg_credentials(1) ne(1) demo_msg_credentials(2) ne(2)
        enc http, of demo_world]
    by (simp add: demo_world_def demo_msg_def)
qed

text \<open>
  C2. With both credentials present and the envelope encoded, when the HTTP client
  returns a response and no error, and \<open>jsonparser.GetInt\<close> on the response body at
  \<open>messages[0].status.groupId\<close> returns \<open>groupID\<close> and \<open>perr\<close>: \<open>SendMsg\<close> returns a status and
  no error; the status is Wired exactly when the parse succeeded and \<open>groupID\<close> is 1 or 3;
  otherwise it is the Errored status built before, and the attempt's log carries the
  "received error status" error.
\<close>

theorem C2_response_group_id:
  assumes user: "StringConfigForKey (msg_Channel msg) ConfigUsername '''' = username"
      "username \<noteq> ''''"
    and pass: "StringConfigForKey (msg_Channel msg) ConfigPassword '''' = password"
      "password \<noteq> ''''"
    and enc: "json_Encode h (ibMsg h msg) = Inr body"
    and http: "MakeHTTPRequest h (ibRequest username password body) = (rr, None)"
    and parse: "jsonparser_GetInt h (Body rr) [''messages'', ''[0]'', ''status'', ''groupId''] =
                  (groupID, perr)"
  shows "(\<exists>status. fst (SendMsg h wld msg) = Inr status \<and>
            (st_Status status = MsgWired \<longleftrightarrow> perr = None \<and> (groupID = 1 \<or> groupID = 3))) \<and>
         (perr = None \<and> (groupID = 1 \<or> groupID = 3) \<longrightarrow>
            fst (SendMsg h wld msg) =
              Inr \<lparr>st_Channel = msg_Channel msg, st_ID = msg_ID msg, st_Status = MsgWired,
                   st_Logs = [length (channel_logs wld)]\<rparr> \<and>
            channel_logs (snd (SendMsg h wld msg)) =
              channel_logs wld @
              [\<lparr>log_Description = ''Message Sent'', log_Channel = msg_Channel msg,
                log_MsgID = msg_ID msg, log_RR = rr, log_Error = None\<rparr>]) \<and>
         (\<not> (perr = None \<and> (groupID = 1 \<or> groupID = 3)) \<longrightarrow>
            fst (SendMsg h wld msg) =
              Inr \<lparr>st_Channel = msg_Channel msg, st_ID = msg_ID msg, st_Status = MsgErrored,
                   st_Logs = [length (channel_logs wld)]\<rparr> \<and>
            channel_logs (snd (SendMsg h wld msg)) =
              channel_logs wld @
              [\<lparr>log_Description = ''Message Send Error'', log_Channel = msg_Channel msg,
                log_MsgID = msg_ID msg, log_RR = rr,
                log_Error = Some (Errorf (''received error status: '%d'' @ [CHR 0x27])
                                    [D (sint groupID)])\<rparr>])"
proof (cases "perr = None \<and> (groupID = 1 \<or> groupID = 3)")
  case True
  then have "\<not> (perr \<noteq> None \<or> (groupID \<noteq> 1 \<and> groupID \<noteq> 3))" by auto
  then have "SendMsg h wld msg =
      (Inr \<lparr>st_Channel = msg_Channel msg, st_ID = msg_ID msg, st_Status = MsgWired,
            st_Logs = [length (channel_logs wld)]\<rparr>,
       wld\<lparr>http_requests := http_requests wld @ [ibRequest username password body],
           channel_logs := channel_logs wld @
             [NewChannelLogFromRR ''Message Sent'' (msg_Channel msg) (msg_ID msg) rr]\<rparr>)"
    using user pass enc http parse
    by (simp add: SendMsg_def Let_def NewMsgStatusForID_def AddLog_def SetStatus_def)
  with True show ?thesis
    by (simp add: NewChannelLogFromRR_def)
next
  case False
  then have "perr \<noteq> None \<or> (groupID \<noteq> 1 \<and> groupID \<noteq> 3)" by auto
  then have "SendMsg h wld msg =
      (Inr \<lparr>st_Channel = msg_Channel msg, st_ID = msg_ID msg, st_Status = MsgErrored,
            st_Logs = [length (channel_logs wld)]\<rparr>,
       WithError
         (wld\<lparr>http_requests := http_requests wld @ [ibRequest username password body],
              channel_logs := channel_logs wld @
                [NewChannelLogFromRR ''Message Sent'' (msg_Channel msg) (msg_ID msg) rr]\<rparr>)
         (length (channel_logs wld)) ''Message Send Error''
         (Errorf (''received error status: '%d'' @ [CHR 0x27]) [D (sint groupID)]))"
    using user pass enc http parse
    by (simp add: SendMsg_def Let_def NewMsgStatusForID_def AddLog_def)
  with False show ?thesis
    by (simp add: NewChannelLogFromRR_def WithError_def)
qed

theorem C2_response_group_id_witness:
  "fst (SendMsg (demo_http_handler (\<lparr>StatusCode = 200, Body = ''ok''\<rparr>, None)) demo_world demo_msg) =
     Inr \<lparr>st_Channel = demo_channel, st_ID = NewMsgID 10, st_Status = MsgWired, st_Logs = [0]\<rparr> \<and>
   fst (SendMsg (demo_http_handler (\<lparr>StatusCode = 200, Body = ''fail''\<rparr>, None)) demo_world demo_msg) =
     Inr \<lparr>st_Channel = demo_channel, st_ID = NewMsgID 10, st_Status = MsgErrored, st_Logs = [0]\<rparr>"
proof -
  let ?ok = "demo_http_handler (\<lparr>StatusCode = 200, Body = ''ok''\<rparr>, None)"
  let ?fail = "demo_http_handler (\<lparr>StatusCode = 200, Body = ''fail''\<rparr>, None)"
  have ne: "''user1'' \<noteq> ''''" "''pass1'' \<noteq> ''''" by simp_all
  have enc: "json_Encode ?ok (ibMsg ?ok demo_msg) = Inr ''{}''"
    "json_Encode ?fail (ibMsg ?fail demo_msg) = Inr ''{}''"
    by (simp_all add: demo_http_handler_fields)
  have http: "MakeHTTPRequest ?ok (ibRequest ''user1'' ''pass1'' ''{}'') =
                (\<lparr>StatusCode = 200, Body = ''ok''\<rparr>, None)"
    "MakeHTTPRequest ?fail (ibRequest ''user1'' ''pass1'' ''{}'') =
                (\<lparr>StatusCode = 200, Body = ''fail''\<rparr>, None)"
    by (simp_all add: demo_http_handler_fields)
  have parse:
    "jsonparser_GetInt ?ok (Body \<lparr>StatusCode = 200, Body = ''ok''\<rparr>)
       [''messages'', ''[0]'', ''status'', ''groupId''] = (1, None)"
    "jsonparser_GetInt ?fail (Body \<lparr>StatusCode = 200, Body = ''fail''\<rparr>)
       [''messages'', ''[0]'', ''status'', ''groupId''] = (0, Some (External ''Key path not found''))"
    by (simp_all add: demo_http_handler_fields)
  show ?thesis
    using
      C2_response_group_id [OF demo_msg_credentials(1) ne(1) demo_msg_credentials(2) ne(2)
        enc(1) http(1) parse(1), of demo_world]
      C2_response_group_id [OF demo_msg_credentials(1) ne(1) demo_msg_credentials(2) ne(2)
        enc(2) http(2) parse(2), of demo_world]
    by (simp add: demo_world_def demo_msg_def)
qed

lemma TrimLeft_plus: "TrimLeft s ''+'' = dropWhile (\<lambda>c. c = CHR ''+'') s"
  by (simp add: TrimLeft_def)

lemma demo_handler_send_fields:
  "URN_Path demo_handler u = drop 4 u"
  "CallbackDomain demo_handler c fallback = StringConfigForKey c ''callback_domain'' fallback"
  "Domain demo_handler = ''courier.test''"
  by (simp_all add: demo_handler_def)

text \<open>
  C8. The envelope that \<open>SendMsg\<close> encodes has one message with one destination. The
  destination's \<open>to\<close> is the path of the message's URN without its leading \<open>+\<close> characters
  (so \<open>+15551234567\<close> gives \<open>15551234567\<close>, and a path with no leading \<open>+\<close> is kept), its
  \<open>messageId\<close> is the string form of the message id; \<open>notifyContentType\<close> is
  \<open>application/json\<close>, \<open>intermediateReport\<close> is true, and \<open>notifyUrl\<close> is \<open>https://\<close>, the
  channel's callback domain, \<open>/c/ib/\<close>, the channel's UUID and \<open>/delivered\<close>. With both
  credentials present, the request \<open>SendMsg\<close> issues has the encoding of this envelope as
  its body.
\<close>

theorem C8_outgoing_envelope:
  "\<exists>m d.
     Messages (ibMsg h msg) = [m] \<and> Destinations m = [d] \<and>
     To d = dropWhile (\<lambda>c. c = CHR ''+'') (URN_Path h (msg_URN msg)) \<and>
     (\<forall>s. URN_Path h (msg_URN msg) = CHR ''+'' # s \<and> take 1 s \<noteq> ''+'' \<longrightarrow> To d = s) \<and>
     (take 1 (URN_Path h (msg_URN msg)) \<noteq> ''+'' \<longrightarrow> To d = URN_Path h (msg_URN msg)) \<and>
     (URN_Path h (msg_URN msg) = ''+15551234567'' \<longrightarrow> To d = ''15551234567'') \<and>
     dest_MessageID d = MsgID_String h (msg_ID msg) \<and>
     NotifyContentType m = ''application/json'' \<and>
     IntermediateReport m = True \<and>
     NotifyURL m =
       ''https://'' @ CallbackDomain h (msg_Channel msg) (Domain h) @ ''/c/ib/'' @
       UUID (msg_Channel msg) @ ''/delivered'' \<and>
     (\<forall>body wld.
        StringConfigForKey (msg_Channel msg) ConfigUsername '''' \<noteq> '''' \<and>
        StringConfigForKey (msg_Channel msg) ConfigPassword '''' \<noteq> '''' \<and>
        json_Encode h (ibMsg h msg) = Inr body \<longrightarrow>
        map req_Body (http_requests (snd (SendMsg h wld msg))) =
          map req_Body (http_requests wld) @ [body])"
proof -
  let ?path = "URN_Path h (msg_URN msg)"
  let ?d = "\<lparr>To = TrimLeft ?path ''+'', dest_MessageID = MsgID_String h (msg_ID msg)\<rparr>"
  let ?m = "\<lparr>From = Address (msg_Channel msg), Destinations = [?d],
             Text = GetTextAndAttachments h msg, NotifyContentType = ''application/json'',
             IntermediateReport = True, NotifyURL = statusURL h msg\<rparr>"
  have env: "Messages (ibMsg h msg) = [?m]" "Destinations ?m = [?d]"
    by (simp_all add: ibMsg_def)
  have to: "To ?d = dropWhile (\<lambda>c. c = CHR ''+'') ?path"
    by (simp add: TrimLeft_plus)
  have one: "To ?d = s" if "?path = CHR ''+'' # s" "take 1 s \<noteq> ''+''" for s
    using that by (cases s) (simp_all add: TrimLeft_plus)
  have keep: "To ?d = ?path" if "take 1 ?path \<noteq> ''+''"
    using that by (cases ?path) (simp_all add: TrimLeft_plus)
  have example: "To ?d = ''15551234567''" if "?path = ''+15551234567''"
    using that by (simp add: TrimLeft_plus)
  have rest: "dest_MessageID ?d = MsgID_String h (msg_ID msg)"
    "NotifyContentType ?m = ''application/json''" "IntermediateReport ?m = True"
    "NotifyURL ?m = ''https://'' @ CallbackDomain h (msg_Channel msg) (Domain h) @ ''/c/ib/'' @
       UUID (msg_Channel msg) @ ''/delivered''"
    by (simp_all add: statusURL_def)
  have sent: "map req_Body (http_requests (snd (SendMsg h wld msg))) =
                map req_Body (http_requests wld) @ [body]"
    if "StringConfigForKey (msg_Channel msg) ConfigUsername '''' \<noteq> ''''"
      "StringConfigForKey (msg_Channel msg) ConfigPassword '''' \<noteq> ''''"
      "json_Encode h (ibMsg h msg) = Inr body" for body wld
    using that
    by (simp add: SendMsg_def Let_def WithError_def ibRequest_def
          split: prod.splits option.splits)
  show ?thesis
    apply (rule exI [of _ ?m])
    apply (rule exI [of _ ?d])
    using env to one keep example rest sent by blast
qed

theorem C8_outgoing_envelope_witness:
  "\<exists>m d. Messages (ibMsg demo_handler demo_msg) = [m] \<and> Destinations m = [d] \<and>
     To d = ''15551234567'' \<and>
     NotifyURL m = ''https://courier.test/c/ib/8eb23e93-5ecb-45ba-b726-3b064e0c56ab/delivered''"
proof -
  have path: "URN_Path demo_handler (msg_URN demo_msg) = ''+15551234567''"
    by (simp add: demo_handler_send_fields demo_msg_def)
  have url: "''https://'' @ CallbackDomain demo_handler (msg_Channel demo_msg) (Domain demo_handler) @
               ''/c/ib/'' @ UUID (msg_Channel demo_msg) @ ''/delivered'' =
             ''https://courier.test/c/ib/8eb23e93-5ecb-45ba-b726-3b064e0c56ab/delivered''"
    by (simp add: demo_handler_send_fields demo_msg_def demo_channel_def StringConfigForKey_def)
  from C8_outgoing_envelope [of demo_handler demo_msg] obtain m d where
    "Messages (ibMsg demo_handler demo_msg) = [m]" "Destinations m = [d]"
    "URN_Path demo_handler (msg_URN demo_msg) = ''+15551234567'' \<longrightarrow> To d = ''15551234567''"
    "NotifyURL m =
       ''https://'' @ CallbackDomain demo_handler (msg_Channel demo_msg) (Domain demo_handler) @
       ''/c/ib/'' @ UUID (msg_Channel demo_msg) @ ''/delivered''"
    by blast
  with path url show ?thesis by metis
qed

end
